theory Spec2Isabelle
  imports Complex_Main
begin

section \<open>Values exchanged with the outside\<close>

text \<open>
  The server is an Express application over three Sequelize tables (User, Conversation,
  Booking; Review plays no part below). Each route handler is modelled as a function from
  the store before the request to the store after it and the HTTP response. What the
  handler awaits from outside (the inventory service, the language model, the simulated
  payment gateway, the clock, the zone of the host) is an argument of the function.

  Request fields carry the types the source declares for them in the function schemas of
  the chat route and in the table definitions: names and e-mail addresses are strings,
  \<open>roomId\<close> is an integer, \<open>nights\<close>, \<open>amount\<close> and prices are numbers. A number is an
  exact rational (no rounding, no NaN). The fields that end in a \<open>where\<close> clause are
  taken wider, see \<open>param\<close> below. Calls to the store complete unless they violate a
  primary key or are given an undefined \<open>where\<close> value.
\<close>

datatype json =
    JNull
  | JBool bool
  | JNum rat
  | JStr string
  | JArr "json list"
  | JObj "(string \<times> json) list"

text \<open>
  \<open>obj.key\<close> on an object: the value of the property, \<open>None\<close> where JavaScript gives
  \<open>undefined\<close>. Of two bindings of a key the later one counts.
\<close>

fun field :: "json \<Rightarrow> string \<Rightarrow> json option" where
  "field (JObj kvs) k = map_of (rev kvs) k"
| "field _ k = None"

text \<open>\<open>res.status(c).json(b)\<close>; \<open>res.json(b)\<close> is status 200.\<close>

type_synonym response = "nat \<times> json"

text \<open>
  A request field that is used as a value of a \<open>where\<close> clause: missing
  (\<open>undefined\<close>), a string, or an array of strings. Sequelize refuses an undefined
  value with an exception, compares a column with a string by equality and with an array
  by \<open>IN\<close>. Other JSON values are not modelled.
\<close>

datatype param = Undefined | Str string | StrList "string list"

fun ids :: "param \<Rightarrow> string list" where
  "ids Undefined = []"
| "ids (Str s) = [s]"
| "ids (StrList ss) = ss"

section \<open>Dates\<close>

text \<open>
  A \<open>Date\<close> is its time value: the milliseconds since the epoch, or NaN for an invalid
  date, which is \<open>None\<close> here. \<open>getDate\<close> and \<open>setDate\<close> follow the definitions of
  ECMA-262 (Day, TimeWithinDay, DayFromYear, YearFromTime, MonthFromTime, DateFromTime,
  MakeDay, MakeDate, LocalTime, UTC, TimeClip). The zone of the host is the function
  \<open>LocalTZA\<close> of ECMA-262: \<open>LocalTZA t True\<close> is the offset in milliseconds in force at
  the UTC time \<open>t\<close>, \<open>LocalTZA t False\<close> the offset in force at the local time \<open>t\<close>.
\<close>

definition msPerDay :: int where
  "msPerDay = 86400000"

definition Day :: "int \<Rightarrow> int" where
  "Day t = t div msPerDay"

definition TimeWithinDay :: "int \<Rightarrow> int" where
  "TimeWithinDay t = t mod msPerDay"

definition DaysInYear :: "int \<Rightarrow> int" where
  "DaysInYear y =
     (if y mod 4 \<noteq> 0 then 365
      else if y mod 100 \<noteq> 0 then 366
      else if y mod 400 \<noteq> 0 then 365
      else 366)"

definition DayFromYear :: "int \<Rightarrow> int" where
  "DayFromYear y =
     365 * (y - 1970) + (y - 1969) div 4 - (y - 1901) div 100 + (y - 1601) div 400"

text \<open>
  The largest year whose first day is not after \<open>t\<close>: an estimate from the mean length
  of a year (146097 days in 400 years), corrected by one year either way.
\<close>

definition YearFromTime :: "int \<Rightarrow> int" where
  "YearFromTime t =
     (let d = Day t; y = 1970 + (400 * d) div 146097
      in if DayFromYear (y + 1) \<le> d then y + 1
         else if d < DayFromYear y then y - 1
         else y)"

definition InLeapYear :: "int \<Rightarrow> int" where
  "InLeapYear t = (if DaysInYear (YearFromTime t) = 365 then 0 else 1)"

definition DayWithinYear :: "int \<Rightarrow> int" where
  "DayWithinYear t = Day t - DayFromYear (YearFromTime t)"

definition MonthFromTime :: "int \<Rightarrow> int" where
  "MonthFromTime t =
     (let d = DayWithinYear t; l = InLeapYear t
      in if d < 31 then 0
         else if d < 59 + l then 1
         else if d < 90 + l then 2
         else if d < 120 + l then 3
         else if d < 151 + l then 4
         else if d < 181 + l then 5
         else if d < 212 + l then 6
         else if d < 243 + l then 7
         else if d < 273 + l then 8
         else if d < 304 + l then 9
         else if d < 334 + l then 10
         else 11)"

definition DateFromTime :: "int \<Rightarrow> int" where
  "DateFromTime t =
     (let d = DayWithinYear t; l = InLeapYear t; m = MonthFromTime t
      in if m = 0 then d + 1
         else if m = 1 then d - 30
         else if m = 2 then d - 58 - l
         else if m = 3 then d - 89 - l
         else if m = 4 then d - 119 - l
         else if m = 5 then d - 150 - l
         else if m = 6 then d - 180 - l
         else if m = 7 then d - 211 - l
         else if m = 8 then d - 242 - l
         else if m = 9 then d - 272 - l
         else if m = 10 then d - 303 - l
         else d - 333 - l)"

text \<open>ToIntegerOrInfinity on a finite number: truncation towards zero.\<close>

definition ToIntegerOrInfinity :: "rat \<Rightarrow> int" where
  "ToIntegerOrInfinity x = (if x < 0 then \<lceil>x\<rceil> else \<lfloor>x\<rfloor>)"

text \<open>
  The day number of the first day of month \<open>mn\<close> (0 to 11) of year \<open>ym\<close>: the day of
  the time value that MakeDay looks for.
\<close>

definition DayOfMonthStart :: "int \<Rightarrow> int \<Rightarrow> int" where
  "DayOfMonthStart ym mn =
     (let l = (if DaysInYear ym = 365 then 0 else 1)
      in DayFromYear ym +
         (if mn = 0 then 0
          else if mn = 1 then 31
          else if mn = 2 then 59 + l
          else if mn = 3 then 90 + l
          else if mn = 4 then 120 + l
          else if mn = 5 then 151 + l
          else if mn = 6 then 181 + l
          else if mn = 7 then 212 + l
          else if mn = 8 then 243 + l
          else if mn = 9 then 273 + l
          else if mn = 10 then 304 + l
          else 334 + l))"

definition MakeDay :: "int \<Rightarrow> int \<Rightarrow> rat \<Rightarrow> int" where
  "MakeDay year month date =
     (let dt = ToIntegerOrInfinity date;
          ym = year + month div 12;
          mn = month mod 12
      in DayOfMonthStart ym mn + dt - 1)"

definition MakeDate :: "int \<Rightarrow> int \<Rightarrow> int" where
  "MakeDate day time = day * msPerDay + time"

definition LocalTime :: "(int \<Rightarrow> bool \<Rightarrow> int) \<Rightarrow> int \<Rightarrow> int" where
  "LocalTime LocalTZA t = t + LocalTZA t True"

definition UTC :: "(int \<Rightarrow> bool \<Rightarrow> int) \<Rightarrow> int \<Rightarrow> int" where
  "UTC LocalTZA t = t - LocalTZA t False"

text \<open>A time beyond 8.64e15 ms on either side of the epoch is no time value.\<close>

definition TimeClip :: "int \<Rightarrow> int option" where
  "TimeClip time = (if \<bar>time\<bar> > 8640000000000000 then None else Some time)"

text \<open>
  Both methods are applied to the copy of \<open>new Date()\<close>, whose time value \<open>thisTime\<close> is
  the reading of the clock and so a number.
\<close>

definition getDate :: "(int \<Rightarrow> bool \<Rightarrow> int) \<Rightarrow> int \<Rightarrow> int" where
  "getDate LocalTZA thisTime = DateFromTime (LocalTime LocalTZA thisTime)"

definition setDate :: "(int \<Rightarrow> bool \<Rightarrow> int) \<Rightarrow> int \<Rightarrow> rat \<Rightarrow> int option" where
  "setDate LocalTZA thisTime date =
     (let t = LocalTime LocalTZA thisTime;
          newDate = MakeDate (MakeDay (YearFromTime t) (MonthFromTime t) date) (TimeWithinDay t)
      in TimeClip (UTC LocalTZA newDate))"

section \<open>The store\<close>

text \<open>
  The content of a turn is any JSON value; \<open>None\<close> is a turn without the property, which
  is what \<open>JSON.stringify\<close> leaves of an undefined content.
\<close>

record turn =
  role :: string
  content :: "json option"

record User =
  userId :: string
  fullName :: "string option"
  email :: "string option"
  lastInteraction :: int

record Conversation =
  userId :: string
  messages :: "turn list"

record Booking =
  bookingId :: string
  userId :: string
  roomId :: int
  checkInDate :: "int option"
  checkOutDate :: "int option"
  totalAmount :: rat
  isPaid :: bool

text \<open>
  User and Booking have a primary key and are maps from it. Conversation has only the
  generated row id: rows are never deleted, so the table is the list of its rows in
  insertion order and a row's position is its id.
\<close>

record store =
  users :: "string \<rightharpoonup> User"
  conversations :: "Conversation list"
  bookings :: "string \<rightharpoonup> Booking"

datatype db_error = UniqueConstraintError | UndefinedWhereValue

text \<open>
  \<open>Booking.create(row)\<close>: an INSERT, rejected when the primary key is taken. An invalid
  date is written as it is.
\<close>

definition Booking_create :: "store \<Rightarrow> Booking \<Rightarrow> db_error + store" where
  "Booking_create st row =
     (case bookings st (bookingId row) of
        Some _ \<Rightarrow> Inl UniqueConstraintError
      | None \<Rightarrow> Inr (st\<lparr>bookings := (bookings st)(bookingId row \<mapsto> row)\<rparr>))"

text \<open>The row of one primary key, if there is one, gets \<open>isPaid = true\<close>.\<close>

definition Booking_set_paid :: "store \<Rightarrow> string \<Rightarrow> store" where
  "Booking_set_paid st bid =
     (case bookings st bid of
        None \<Rightarrow> st
      | Some row \<Rightarrow> st\<lparr>bookings := (bookings st)(bid \<mapsto> row\<lparr>isPaid := True\<rparr>)\<rparr>)"

text \<open>
  \<open>Booking.update({ isPaid: true }, { where: { bookingId } })\<close>: an exception on an
  undefined \<open>bookingId\<close>, else every matching row is updated, none of them among the cases.
\<close>

definition Booking_update_isPaid :: "store \<Rightarrow> param \<Rightarrow> db_error + store" where
  "Booking_update_isPaid st p =
     (case p of
        Undefined \<Rightarrow> Inl UndefinedWhereValue
      | _ \<Rightarrow> Inr (foldl Booking_set_paid st (ids p)))"

text \<open>\<open>booking.destroy()\<close>: DELETE of the row with the instance's primary key.\<close>

definition Booking_destroy :: "store \<Rightarrow> string \<Rightarrow> store" where
  "Booking_destroy st bid = st\<lparr>bookings := (bookings st)(bid := None)\<rparr>"

section \<open>POST /book\<close>

datatype axios_error = NetworkError | BadStatus nat | Timeout

text \<open>
  \<open>response.data\<close> of a successful call to the inventory service, kept to the two
  properties that the handler reads.
\<close>

datatype inventory_data =
  InventoryData (data_bookingId: string) (data_totalPrice: rat)

definition data_json :: "inventory_data \<Rightarrow> json" where
  "data_json d =
     JObj [(''bookingId'', JStr (data_bookingId d)), (''totalPrice'', JNum (data_totalPrice d))]"

text \<open>
  \<open>axios_post\<close> is the inventory service as the handler sees it: given the posted fields
  it rejects (network error, status outside 2xx, timeout) or resolves with the payload.
  \<open>now\<close> is the time value of \<open>new Date()\<close>.
\<close>

definition book ::
  "(int \<Rightarrow> bool \<Rightarrow> int) \<Rightarrow> int \<Rightarrow>
   (int \<Rightarrow> string \<Rightarrow> string \<Rightarrow> rat \<Rightarrow> axios_error + inventory_data) \<Rightarrow>
   store \<Rightarrow> int \<Rightarrow> string \<Rightarrow> string \<Rightarrow> rat \<Rightarrow> store \<times> response" where
  "book LocalTZA now axios_post st = (\<lambda>roomId fullName email nights.
      case axios_post roomId fullName email nights of
        Inl err \<Rightarrow> (st, (500, JObj [(''error'', JStr ''Error booking room'')]))
      | Inr d \<Rightarrow>
          (let checkInDate = now;
               checkOutDate =
                 setDate LocalTZA checkInDate (of_int (getDate LocalTZA checkInDate) + nights)
           in case Booking_create st
                     \<lparr>bookingId = data_bookingId d, userId = email, roomId = roomId,
                      checkInDate = Some checkInDate, checkOutDate = checkOutDate,
                      totalAmount = data_totalPrice d, isPaid = False\<rparr> of
                Inl err \<Rightarrow> (st, (500, JObj [(''error'', JStr ''Error booking room'')]))
              | Inr st' \<Rightarrow> (st', (200, data_json d))))"

section \<open>processPayment\<close>

text \<open>
  What the simulated gateway resolves with after its delay: \<open>success\<close> is drawn at
  random, \<open>transactionId\<close> is a random string in base 36.
\<close>

record gatewayResponse =
  success :: bool
  transactionId :: string
  message :: string

text \<open>
  \<open>ToString\<close> is the conversion of a number to a string that the template literal applies
  to \<open>amount\<close>. The result is the object that the function returns. The exception of the
  update is caught by the function and answered with a failure of its own.
\<close>

definition processPayment ::
  "(rat \<Rightarrow> string) \<Rightarrow> gatewayResponse \<Rightarrow> store \<Rightarrow> param \<Rightarrow> rat \<Rightarrow> string \<Rightarrow> store \<times> json" where
  "processPayment ToString gatewayResponse st = (\<lambda>bookingId amount method.
      if success gatewayResponse then
        (case Booking_update_isPaid st bookingId of
           Inl err \<Rightarrow>
             (st,
              JObj [(''status'', JStr ''failed''),
                    (''message'', JStr ''An error occurred while processing the payment.'')])
         | Inr st' \<Rightarrow>
             (st',
              JObj [(''status'', JStr ''success''),
                    (''message'',
                     JStr (''Payment of $'' @ ToString amount @ '' processed via '' @ method @
                           ''. Transaction ID: '' @ transactionId gatewayResponse))]))
      else
        (st,
         JObj [(''status'', JStr ''failed''),
               (''message'', JStr ''Payment processing failed. Please try again.'')]))"

section \<open>POST /cancel-booking and DELETE /delete-booking/:bookingId\<close>

text \<open>
  \<open>Booking.findOne({ where: { bookingId } })\<close> of the delete route, where \<open>bookingId\<close> is
  a segment of the path and so a string.
\<close>

definition Booking_findOne :: "store \<Rightarrow> string \<Rightarrow> Booking option" where
  "Booking_findOne st bid = bookings st bid"

text \<open>
  \<open>Booking.findOne({ where: { bookingId, userId } })\<close> of the cancel route, both taken
  from the body: an exception when either is undefined; else the row of the
  \<open>bookingId\<close>, given with its key, if its \<open>userId\<close> equals the string or is an element
  of the array. The \<open>bookingId\<close> is missing or a string: which of several rows an array
  of them would find is up to the database.
\<close>

definition Booking_findOne_owner ::
  "store \<Rightarrow> string option \<Rightarrow> param \<Rightarrow> db_error + (string \<times> Booking) option" where
  "Booking_findOne_owner st bid uid =
     (case bid of
        None \<Rightarrow> Inl UndefinedWhereValue
      | Some b \<Rightarrow>
          (case uid of
             Undefined \<Rightarrow> Inl UndefinedWhereValue
           | _ \<Rightarrow>
               (case bookings st b of
                  None \<Rightarrow> Inr None
                | Some row \<Rightarrow> Inr (if userId row \<in> set (ids uid) then Some (b, row) else None))))"

definition cancel_booking :: "store \<Rightarrow> string option \<Rightarrow> param \<Rightarrow> store \<times> response" where
  "cancel_booking st = (\<lambda>bookingId userId.
      case Booking_findOne_owner st bookingId userId of
        Inl err \<Rightarrow> (st, (500, JObj [(''error'', JStr ''Error canceling booking'')]))
      | Inr None \<Rightarrow> (st, (404, JObj [(''error'', JStr ''Booking not found'')]))
      | Inr (Some (key, booking)) \<Rightarrow>
          (Booking_destroy st key,
           (200, JObj [(''message'', JStr ''Booking canceled successfully'')])))"

definition delete_booking :: "store \<Rightarrow> string \<Rightarrow> store \<times> response" where
  "delete_booking st = (\<lambda>bookingId.
      case Booking_findOne st bookingId of
        None \<Rightarrow> (st, (404, JObj [(''error'', JStr ''Booking not found'')]))
      | Some booking \<Rightarrow>
          (Booking_destroy st bookingId,
           (200, JObj [(''message'', JStr ''Booking deleted successfully'')])))"

section \<open>POST /chat\<close>

text \<open>
  \<open>Conversation.findOne({ where: { userId } })\<close>: the position of the first row of the
  user, if any.
\<close>

fun Conversation_findOne :: "Conversation list \<Rightarrow> string \<Rightarrow> nat option" where
  "Conversation_findOne [] uid = None"
| "Conversation_findOne (c # cs) uid =
     (if Conversation.userId c = uid then Some 0
      else map_option Suc (Conversation_findOne cs uid))"

definition turn_json :: "turn \<Rightarrow> json" where
  "turn_json t =
     JObj ((''role'', JStr (role t)) #
           (case content t of None \<Rightarrow> [] | Some c \<Rightarrow> [(''content'', c)]))"

datatype js_error = RequestFailed | TypeError

text \<open>
  Reading a property and the first element of a value that may be \<open>undefined\<close>
  (\<open>None\<close>): a TypeError on \<open>undefined\<close> and \<open>null\<close>, the property of an object, the
  first element of an array or string, and \<open>undefined\<close> on anything else.
\<close>

fun get_prop :: "json option \<Rightarrow> string \<Rightarrow> js_error + json option" where
  "get_prop None k = Inl TypeError"
| "get_prop (Some JNull) k = Inl TypeError"
| "get_prop (Some (JObj kvs)) k = Inr (field (JObj kvs) k)"
| "get_prop (Some v) k = Inr None"

fun get_first :: "json option \<Rightarrow> js_error + json option" where
  "get_first None = Inl TypeError"
| "get_first (Some JNull) = Inl TypeError"
| "get_first (Some (JArr xs)) = Inr (case xs of [] \<Rightarrow> None | x # _ \<Rightarrow> Some x)"
| "get_first (Some (JStr s)) = Inr (case s of [] \<Rightarrow> None | c # _ \<Rightarrow> Some (JStr [c]))"
| "get_first (Some (JObj kvs)) = Inr (field (JObj kvs) ''0'')"
| "get_first (Some v) = Inr None"

text \<open>\<open>completion.data.choices[0].message.content\<close>, read from left to right.\<close>

definition assistantMessage_of :: "json \<Rightarrow> js_error + json option" where
  "assistantMessage_of completion =
     (case get_prop (Some completion) ''data'' of
        Inl e \<Rightarrow> Inl e
      | Inr d \<Rightarrow>
          (case get_prop d ''choices'' of
             Inl e \<Rightarrow> Inl e
           | Inr cs \<Rightarrow>
               (case get_first cs of
                  Inl e \<Rightarrow> Inl e
                | Inr c \<Rightarrow>
                    (case get_prop c ''message'' of
                       Inl e \<Rightarrow> Inl e
                     | Inr m \<Rightarrow> get_prop m ''content''))))"

text \<open>
  \<open>create\<close> is \<open>openai.chat.completions.create\<close> as the handler sees it: from the user
  record that the system prompt embeds and the transcript sent, it rejects or resolves
  with the completion, the parsed body of the answer. The stored \<open>messages\<close> text is the
  JSON of the list of turns and is kept as that list.
\<close>

definition chat ::
  "int \<Rightarrow> (User \<Rightarrow> turn list \<Rightarrow> js_error + json) \<Rightarrow>
   store \<Rightarrow> string \<Rightarrow> string \<Rightarrow> store \<times> response" where
  "chat now create st = (\<lambda>message userId.
      if userId = [] then (st, (401, JObj [(''error'', JStr ''Unauthorized'')]))
      else
        (let user =
               (case users st userId of
                  None \<Rightarrow>
                    \<lparr>User.userId = userId, fullName = None, email = None, lastInteraction = now\<rparr>
                | Some u \<Rightarrow> u\<lparr>lastInteraction := now\<rparr>);
             st1 = st\<lparr>users := (users st)(userId \<mapsto> user)\<rparr>;
             (st2, i) =
               (case Conversation_findOne (conversations st1) userId of
                  None \<Rightarrow>
                    (st1\<lparr>conversations :=
                           conversations st1 @ [\<lparr>Conversation.userId = userId, messages = []\<rparr>]\<rparr>,
                     length (conversations st1))
                | Some i \<Rightarrow> (st1, i));
             messages1 =
               messages (conversations st2 ! i) @
                 [\<lparr>role = ''user'', content = Some (JStr message)\<rparr>]
         in case create user messages1 of
              Inl err \<Rightarrow> (st2, (500, JObj [(''error'', JStr ''Error processing chat'')]))
            | Inr completion \<Rightarrow>
                (case assistantMessage_of completion of
                   Inl err \<Rightarrow> (st2, (500, JObj [(''error'', JStr ''Error processing chat'')]))
                 | Inr assistantMessage \<Rightarrow>
                     (let messages2 =
                            messages1 @ [\<lparr>role = ''system'', content = assistantMessage\<rparr>]
                      in (st2\<lparr>conversations :=
                               (conversations st2)
                                 [i := (conversations st2 ! i)\<lparr>messages := messages2\<rparr>]\<rparr>,
                          (200, JObj [(''messages'', JArr (map turn_json messages2))]))))))"

text \<open>The transcript stored for a user: the messages of the row that the handler would load.\<close>

definition transcript :: "store \<Rightarrow> string \<Rightarrow> turn list" where
  "transcript st uid =
     (case Conversation_findOne (conversations st) uid of
        None \<Rightarrow> []
      | Some i \<Rightarrow> messages (conversations st ! i))"

text \<open>
  Requests of one user handled one after the other, each given as the clock reading and
  the message text.
\<close>

fun chats ::
  "(User \<Rightarrow> turn list \<Rightarrow> js_error + json) \<Rightarrow> store \<Rightarrow> string \<Rightarrow>
   (int \<times> string) list \<Rightarrow> store" where
  "chats create st uid [] = st"
| "chats create st uid ((now, msg) # reqs) =
     chats create (fst (chat now create st msg uid)) uid reqs"

section \<open>Sample data\<close>

text \<open>Stores, zones, services and gateway answers at which the results below are evaluated.\<close>

definition store0 :: store where
  "store0 = \<lparr>users = Map.empty, conversations = [], bookings = Map.empty\<rparr>"

definition booking_X1 :: Booking where
  "booking_X1 =
     \<lparr>bookingId = ''X1'', userId = ''c@d.com'', roomId = 7,
      checkInDate = Some 1600000000000, checkOutDate = Some 1600086400000,
      totalAmount = 120, isPaid = False\<rparr>"

definition booking_P9 :: Booking where
  "booking_P9 =
     \<lparr>bookingId = ''P9'', userId = ''e@f.com'', roomId = 2,
      checkInDate = Some 1600000000000, checkOutDate = Some 1600172800000,
      totalAmount = 240, isPaid = True\<rparr>"

definition store_two :: store where
  "store_two =
     \<lparr>users = Map.empty, conversations = [],
      bookings = [''X1'' \<mapsto> booking_X1, ''P9'' \<mapsto> booking_P9]\<rparr>"

text \<open>A host on UTC.\<close>

definition zone_UTC :: "int \<Rightarrow> bool \<Rightarrow> int" where
  "zone_UTC = (\<lambda>t isUTC. 0)"

text \<open>
  A host in New York around the end of daylight saving time on 5 November 2023 at 06:00
  UTC: four hours behind UTC before, five hours after. A local time that occurs twice is
  read with the offset before the change.
\<close>

definition zone_NewYork :: "int \<Rightarrow> bool \<Rightarrow> int" where
  "zone_NewYork = (\<lambda>t isUTC.
      if isUTC then (if t < 1699164000000 then - 14400000 else - 18000000)
      else (if t < 1699149600000 then - 14400000 else - 18000000))"

definition inventory_X1 ::
  "int \<Rightarrow> string \<Rightarrow> string \<Rightarrow> rat \<Rightarrow> axios_error + inventory_data" where
  "inventory_X1 = (\<lambda>roomId fullName email nights. Inr (InventoryData ''X1'' 300))"

definition inventory_down ::
  "int \<Rightarrow> string \<Rightarrow> string \<Rightarrow> rat \<Rightarrow> axios_error + inventory_data" where
  "inventory_down = (\<lambda>roomId fullName email nights. Inl (BadStatus 503))"

definition gateway_ok :: gatewayResponse where
  "gateway_ok =
     \<lparr>success = True, transactionId = ''K3J9X0Q2A'',
      message = ''Payment processed successfully''\<rparr>"

definition gateway_declined :: gatewayResponse where
  "gateway_declined =
     \<lparr>success = False, transactionId = ''7ZP41MMD0'',
      message = ''Payment processed successfully''\<rparr>"

text \<open>
  The conversion of a number to a string on the integers from 0 below 1e21, where it is
  the decimal numeral. It is applied to such amounts only.
\<close>

fun decimal :: "nat \<Rightarrow> string" where
  "decimal n =
     (if n < 10 then [''0123456789'' ! n]
      else decimal (n div 10) @ [''0123456789'' ! (n mod 10)])"

definition integer_ToString :: "rat \<Rightarrow> string" where
  "integer_ToString x = decimal (nat \<lfloor>x\<rfloor>)"



text \<open>An answer that nests a content where the handler reads it, under \<open>data\<close>.\<close>

definition under_data :: "json \<Rightarrow> json" where
  "under_data c =
     JObj [(''data'', JObj [(''choices'', JArr [JObj [(''message'', JObj [(''content'', c)])]])])]"

section \<open>Date arithmetic of the booking\<close>

lemma MonthFromTime_range: "0 \<le> MonthFromTime t \<and> MonthFromTime t \<le> 11"
  by (simp add: MonthFromTime_def Let_def)

text \<open>
  Setting the day of the month to the current one plus \<open>n\<close> lands \<open>n\<close> days later,
  across the ends of months and years: MakeDay starts from the first day of the month that
  DateFromTime counted from.
\<close>

lemma MakeDay_DateFromTime:
  "MakeDay (YearFromTime t) (MonthFromTime t) (of_int (DateFromTime t + n)) = Day t + n"
proof -
  have r: "0 \<le> MonthFromTime t" "MonthFromTime t \<le> 11"
    using MonthFromTime_range by auto
  then have d: "MonthFromTime t div 12 = 0" "MonthFromTime t mod 12 = MonthFromTime t"
    by auto
  have ti: "ToIntegerOrInfinity (of_int (DateFromTime t + n)) = DateFromTime t + n"
    unfolding ToIntegerOrInfinity_def by simp
  show ?thesis
    unfolding MakeDay_def Let_def d ti
    by (simp add: DayOfMonthStart_def DateFromTime_def InLeapYear_def DayWithinYear_def Let_def)
qed

text \<open>
  In local time the new date is \<open>n\<close> days of 86400000 ms after the old one; back in UTC
  the offset subtracted is the one in force at the new local time.
\<close>

lemma setDate_getDate_add:
  "setDate Z t (of_int (getDate Z t) + of_int n) =
     TimeClip (t + Z t True + n * msPerDay - Z (t + Z t True + n * msPerDay) False)"
proof -
  have "MakeDay (YearFromTime (t + Z t True)) (MonthFromTime (t + Z t True))
          (of_int (DateFromTime (t + Z t True)) + of_int n) = Day (t + Z t True) + n"
    using MakeDay_DateFromTime [of "t + Z t True" n] by simp
  moreover have "(Day (t + Z t True) + n) * msPerDay + TimeWithinDay (t + Z t True) =
                   t + Z t True + n * msPerDay"
    by (simp add: Day_def TimeWithinDay_def algebra_simps)
  ultimately show ?thesis
    by (simp add: setDate_def getDate_def LocalTime_def UTC_def MakeDate_def Let_def)
qed

lemma setDate_getDate_add_days:
  assumes "Z (now + Z now True + n * msPerDay) False = Z now True"
      and "\<bar>now + n * msPerDay\<bar> \<le> 8640000000000000"
  shows "setDate Z now (of_int (getDate Z now) + of_int n) = Some (now + n * msPerDay)"
  using assms by (simp add: setDate_getDate_add TimeClip_def)

lemma getDate_UTC_sample: "getDate zone_UTC 1700000000000 = 14"
  by code_simp

lemma setDate_UTC_sample_fraction:
  "setDate zone_UTC 1700000000000 (31 / 2) = Some 1700086400000"
  by code_simp


section \<open>Results on POST /book\<close>

lemma book_resolved_fresh:
  assumes "axios_post rid fn em n = Inr d"
      and "bookings st (data_bookingId d) = None"
  shows "book Z now axios_post st rid fn em n =
          (st\<lparr>bookings := (bookings st)(data_bookingId d \<mapsto>
               \<lparr>bookingId = data_bookingId d, userId = em, roomId = rid,
                checkInDate = Some now,
                checkOutDate = setDate Z now (of_int (getDate Z now) + n),
                totalAmount = data_totalPrice d, isPaid = False\<rparr>)\<rparr>,
           (200, data_json d))"
  using assms by (simp add: book_def Booking_create_def Let_def)

lemma book_resolved_taken:
  assumes "axios_post rid fn em n = Inr d"
      and "bookings st (data_bookingId d) = Some row"
  shows "book Z now axios_post st rid fn em n =
          (st, (500, JObj [(''error'', JStr ''Error booking room'')]))"
  using assms by (simp add: book_def Booking_create_def Let_def)


text \<open>
  Claim C1, as amended. When the inventory call resolves with \<open>{bookingId, totalPrice}\<close>,
  no row with that \<open>bookingId\<close> is stored yet, \<open>nights\<close> is an integer, the offset of the
  host's zone at the local time of check-out is the one at check-in, and the time of
  check-out is within the range of \<open>Date\<close>, then the handler answers 200 with the payload
  and the store afterwards holds, under that \<open>bookingId\<close>, the row with the request's
  \<open>roomId\<close>, the returned \<open>totalPrice\<close> as \<open>totalAmount\<close>, \<open>isPaid = false\<close>,
  \<open>checkInDate\<close> the current time and \<open>checkOutDate\<close> exactly \<open>nights\<close> days later.
\<close>

theorem book_persists_booking:
  assumes "axios_post rid fn em (of_int n) = Inr d"
      and "bookings st (data_bookingId d) = None"
      and "Z (now + Z now True + n * msPerDay) False = Z now True"
      and "\<bar>now + n * msPerDay\<bar> \<le> 8640000000000000"
  shows "book Z now axios_post st rid fn em (of_int n) =
          (st\<lparr>bookings := (bookings st)(data_bookingId d \<mapsto>
               \<lparr>bookingId = data_bookingId d, userId = em, roomId = rid,
                checkInDate = Some now, checkOutDate = Some (now + n * msPerDay),
                totalAmount = data_totalPrice d, isPaid = False\<rparr>)\<rparr>,
           (200, data_json d))"
  using assms book_resolved_fresh [of axios_post rid fn em "of_int n" d st Z now]
  by (simp add: setDate_getDate_add_days)

text \<open>
  The scenario of the specification: room 5 for 3 nights, the inventory stub answering
  \<open>{bookingId: "X1", totalPrice: 300}\<close>, on an empty store, on a host in New York ten
  days after the end of daylight saving time.
\<close>

theorem book_persists_booking_witness:
  "inventory_X1 5 ''A B'' ''a@b.com'' (of_int 3) = Inr (InventoryData ''X1'' 300) \<and>
   bookings store0 (data_bookingId (InventoryData ''X1'' 300)) = None \<and>
   zone_NewYork (1700000000000 + zone_NewYork 1700000000000 True + 3 * msPerDay) False =
     zone_NewYork 1700000000000 True \<and>
   \<bar>1700000000000 + 3 * msPerDay\<bar> \<le> 8640000000000000 \<and>
   bookings (fst (book zone_NewYork 1700000000000 inventory_X1 store0 5 ''A B'' ''a@b.com''
                    (of_int 3))) ''X1'' =
     Some \<lparr>bookingId = ''X1'', userId = ''a@b.com'', roomId = 5,
           checkInDate = Some 1700000000000, checkOutDate = Some (1700000000000 + 3 * 86400000),
           totalAmount = 300, isPaid = False\<rparr> \<and>
   snd (book zone_NewYork 1700000000000 inventory_X1 store0 5 ''A B'' ''a@b.com'' (of_int 3)) =
     (200, JObj [(''bookingId'', JStr ''X1''), (''totalPrice'', JNum 300)])"
proof -
  have h1: "inventory_X1 5 ''A B'' ''a@b.com'' (of_int 3) = Inr (InventoryData ''X1'' 300)"
    by (simp add: inventory_X1_def)
  have h2: "bookings store0 (data_bookingId (InventoryData ''X1'' 300)) = None"
    by (simp add: store0_def)
  have h3: "zone_NewYork (1700000000000 + zone_NewYork 1700000000000 True + 3 * msPerDay) False =
     zone_NewYork 1700000000000 True"
    by (simp add: zone_NewYork_def msPerDay_def)
  have h4: "\<bar>1700000000000 + 3 * msPerDay\<bar> \<le> 8640000000000000"
    by (simp add: msPerDay_def)
  show ?thesis
    using h1 h2 h3 h4
      book_persists_booking [of inventory_X1 5 "''A B''" "''a@b.com''" 3
        "InventoryData ''X1'' 300" store0 zone_NewYork 1700000000000]
    by (simp add: msPerDay_def data_json_def)
qed

text \<open>
  The claim as stated fails in four ways, each with the inventory stub answering
  \<open>{bookingId: "X1", totalPrice: 300}\<close>.
  With booking \<open>X1\<close> of room 7 already stored, a request for room 5 is refused by the
  primary key: the answer is 500 and the only row \<open>X1\<close> is still the one of room 7.
  With \<open>nights\<close> = 3/2 on an empty store, the day of the month 14 + 3/2 is truncated: the
  row is stored with a stay of one day, not of one day and a half.
  On a host in New York, 3 nights from 4 November 2023, 16:00 UTC, span the end of
  daylight saving time: the row is stored with a stay of 3 days and one hour.
  With \<open>nights\<close> = 99980325 the check-out is beyond the range of \<open>Date\<close>: the date
  computed is invalid, and no row with a stay of that many days is stored.
\<close>

theorem book_persists_booking_counterexample:
  "inventory_X1 5 ''A B'' ''a@b.com'' 3 = Inr (InventoryData ''X1'' 300) \<and>
   book zone_UTC 1700000000000 inventory_X1 store_two 5 ''A B'' ''a@b.com'' 3 =
     (store_two, (500, JObj [(''error'', JStr ''Error booking room'')])) \<and>
   bookings store_two ''X1'' = Some booking_X1 \<and> roomId booking_X1 = 7 \<and>
   inventory_X1 5 ''A B'' ''a@b.com'' (3 / 2) = Inr (InventoryData ''X1'' 300) \<and>
   bookings (fst (book zone_UTC 1700000000000 inventory_X1 store0 5 ''A B'' ''a@b.com'' (3 / 2)))
      ''X1'' =
     Some \<lparr>bookingId = ''X1'', userId = ''a@b.com'', roomId = 5,
           checkInDate = Some 1700000000000, checkOutDate = Some (1700000000000 + 1 * 86400000),
           totalAmount = 300, isPaid = False\<rparr> \<and>
   rat_of_int (1 * 86400000) \<noteq> (3 / 2) * rat_of_int msPerDay \<and>
   bookings (fst (book zone_NewYork 1699113600000 inventory_X1 store0 5 ''A B'' ''a@b.com'' 3))
      ''X1'' =
     Some \<lparr>bookingId = ''X1'', userId = ''a@b.com'', roomId = 5,
           checkInDate = Some 1699113600000,
           checkOutDate = Some (1699113600000 + 3 * 86400000 + 3600000),
           totalAmount = 300, isPaid = False\<rparr> \<and>
   setDate zone_UTC 1700000000000 (of_int (getDate zone_UTC 1700000000000) + 99980325) = None \<and>
   bookings (fst (book zone_UTC 1700000000000 inventory_X1 store0 5 ''A B'' ''a@b.com'' 99980325))
      ''X1'' \<noteq>
     Some \<lparr>bookingId = ''X1'', userId = ''a@b.com'', roomId = 5,
           checkInDate = Some 1700000000000,
           checkOutDate = Some (1700000000000 + 99980325 * 86400000),
           totalAmount = 300, isPaid = False\<rparr>"
proof -
  have a: "book zone_UTC 1700000000000 inventory_X1 store_two 5 ''A B'' ''a@b.com'' 3 =
     (store_two, (500, JObj [(''error'', JStr ''Error booking room'')]))"
    using book_resolved_taken [of inventory_X1 5 "''A B''" "''a@b.com''" 3
        "InventoryData ''X1'' 300" store_two booking_X1 zone_UTC 1700000000000]
    by (simp add: inventory_X1_def store_two_def)
  have b: "bookings (fst (book Z now inventory_X1 store0 5 ''A B'' ''a@b.com'' n)) ''X1'' =
     Some \<lparr>bookingId = ''X1'', userId = ''a@b.com'', roomId = 5,
           checkInDate = Some now,
           checkOutDate = setDate Z now (of_int (getDate Z now) + n),
           totalAmount = 300, isPaid = False\<rparr>" for Z now n
    using book_resolved_fresh [of inventory_X1 5 "''A B''" "''a@b.com''" n
        "InventoryData ''X1'' 300" store0 Z now]
    by (simp add: inventory_X1_def store0_def)
  have c: "setDate zone_UTC 1700000000000 (of_int (getDate zone_UTC 1700000000000) + 3 / 2) =
             Some 1700086400000"
    by (simp add: getDate_UTC_sample setDate_UTC_sample_fraction)
  have d: "setDate zone_NewYork 1699113600000 (of_int (getDate zone_NewYork 1699113600000) + 3) =
             Some 1699376400000"
    using setDate_getDate_add [of zone_NewYork 1699113600000 3]
    by (simp add: zone_NewYork_def msPerDay_def TimeClip_def)
  have e: "setDate zone_UTC 1700000000000 (of_int (getDate zone_UTC 1700000000000) + 99980325) =
             None"
    using setDate_getDate_add [of zone_UTC 1700000000000 99980325]
    by (simp add: zone_UTC_def msPerDay_def TimeClip_def)
  show ?thesis
    unfolding a b c d
    by (simp add: e inventory_X1_def store_two_def booking_X1_def msPerDay_def)
qed

text \<open>
  Claim C3. When the inventory call rejects (network error, status outside 2xx, timeout),
  the handler answers 500 with \<open>{error: "Error booking room"}\<close> and the store, the
  bookings among it, is the one before the call.
\<close>

theorem book_upstream_failure:
  assumes "axios_post rid fn em n = Inl err"
  shows "book Z now axios_post st rid fn em n =
          (st, (500, JObj [(''error'', JStr ''Error booking room'')]))"
  using assms by (simp add: book_def)

theorem book_upstream_failure_witness:
  "inventory_down 5 ''A B'' ''a@b.com'' 3 = Inl (BadStatus 503) \<and>
   book zone_UTC 1700000000000 inventory_down store_two 5 ''A B'' ''a@b.com'' 3 =
     (store_two, (500, JObj [(''error'', JStr ''Error booking room'')]))"
proof -
  have h: "inventory_down 5 ''A B'' ''a@b.com'' 3 = Inl (BadStatus 503)"
    by (simp add: inventory_down_def)
  show ?thesis
    using h
      book_upstream_failure [of inventory_down 5 "''A B''" "''a@b.com''" 3 "BadStatus 503"
        zone_UTC 1700000000000 store_two]
    by simp
qed




section \<open>Results on processPayment\<close>

lemma processPayment_declined:
  "\<not> success gw \<Longrightarrow>
   processPayment ts gw st bid a m =
     (st, JObj [(''status'', JStr ''failed''),
                (''message'', JStr ''Payment processing failed. Please try again.'')])"
  by (simp add: processPayment_def)

lemma processPayment_settled:
  "success gw \<Longrightarrow> bid \<noteq> Undefined \<Longrightarrow>
   processPayment ts gw st bid a m =
     (foldl Booking_set_paid st (ids bid),
      JObj [(''status'', JStr ''success''),
            (''message'',
             JStr (''Payment of $'' @ ts a @ '' processed via '' @ m @
                   ''. Transaction ID: '' @ transactionId gw))])"
  by (cases bid) (simp_all add: processPayment_def Booking_update_isPaid_def)

lemma processPayment_caught:
  "success gw \<Longrightarrow>
   processPayment ts gw st Undefined a m =
     (st, JObj [(''status'', JStr ''failed''),
                (''message'', JStr ''An error occurred while processing the payment.'')])"
  by (simp add: processPayment_def Booking_update_isPaid_def)

lemma Booking_set_paid_row:
  "bookings st b = Some row \<Longrightarrow>
   bookings (Booking_set_paid st b) k =
     (if k = b then Some (row\<lparr>isPaid := True\<rparr>) else bookings st k)"
  by (simp add: Booking_set_paid_def)

lemma Booking_set_paid_keeps_paid:
  assumes "bookings st k = Some paid" and "isPaid paid"
  shows "\<exists>row'. bookings (Booking_set_paid st b) k = Some row' \<and> isPaid row'"
proof (cases "bookings st b")
  case None
  then show ?thesis using assms by (simp add: Booking_set_paid_def)
next
  case (Some row)
  then show ?thesis using assms by (auto simp add: Booking_set_paid_row)
qed

lemma foldl_set_paid_keeps_paid:
  "bookings st k = Some paid \<Longrightarrow> isPaid paid \<Longrightarrow>
   \<exists>row'. bookings (foldl Booking_set_paid st bs) k = Some row' \<and> isPaid row'"
proof (induction bs arbitrary: st paid)
  case Nil
  then show ?case by simp
next
  case (Cons b bs)
  obtain row' where "bookings (Booking_set_paid st b) k = Some row'" "isPaid row'"
    using Booking_set_paid_keeps_paid [OF Cons.prems] by blast
  then show ?case using Cons.IH by simp
qed


text \<open>
  Claim C2. When the gateway reports failure, \<open>processPayment\<close> leaves the store as it was,
  so no \<open>isPaid\<close> becomes true. When it reports success, the row of the given \<open>bookingId\<close>,
  if there is one, has \<open>isPaid = true\<close> afterwards. A row whose \<open>isPaid\<close> is true is
  still stored with \<open>isPaid\<close> true after any payment attempt, a failed one among them.
\<close>

theorem processPayment_isPaid:
  "(\<not> success gw \<longrightarrow> fst (processPayment ts gw st bid a m) = st) \<and>
   (success gw \<and> bookings st b = Some row \<longrightarrow>
      bookings (fst (processPayment ts gw st (Str b) a m)) b = Some (row\<lparr>isPaid := True\<rparr>)) \<and>
   (bookings st k = Some paid \<and> isPaid paid \<longrightarrow>
      (\<exists>row'. bookings (fst (processPayment ts gw st bid a m)) k = Some row' \<and> isPaid row'))"
proof (intro conjI impI)
  assume "\<not> success gw"
  then show "fst (processPayment ts gw st bid a m) = st"
    by (simp add: processPayment_declined)
next
  assume "success gw \<and> bookings st b = Some row"
  then show "bookings (fst (processPayment ts gw st (Str b) a m)) b = Some (row\<lparr>isPaid := True\<rparr>)"
    by (simp add: processPayment_settled Booking_set_paid_row)
next
  assume p: "bookings st k = Some paid \<and> isPaid paid"
  show "\<exists>row'. bookings (fst (processPayment ts gw st bid a m)) k = Some row' \<and> isPaid row'"
  proof (cases "success gw")
    case False
    then show ?thesis using p by (simp add: processPayment_declined)
  next
    case True
    show ?thesis
    proof (cases "bid = Undefined")
      case True
      then show ?thesis using p \<open>success gw\<close> by (simp add: processPayment_caught)
    next
      case False
      then show ?thesis
        using p \<open>success gw\<close> foldl_set_paid_keeps_paid [of st k paid "ids bid"]
        by (simp add: processPayment_settled)
    qed
  qed
qed

text \<open>
  A declined attempt on the paid booking \<open>P9\<close> leaves it paid; a successful one on the
  unpaid booking \<open>X1\<close> marks it paid.
\<close>

theorem processPayment_isPaid_witness:
  "\<not> success gateway_declined \<and>
   fst (processPayment integer_ToString gateway_declined store_two (Str ''P9'') 240 ''paypal'') =
     store_two \<and>
   bookings store_two ''P9'' = Some booking_P9 \<and> isPaid booking_P9 \<and>
   success gateway_ok \<and> bookings store_two ''X1'' = Some booking_X1 \<and> \<not> isPaid booking_X1 \<and>
   bookings (fst (processPayment integer_ToString gateway_ok store_two (Str ''X1'') 120 ''paypal''))
     ''X1'' = Some (booking_X1\<lparr>isPaid := True\<rparr>)"
  using
    processPayment_isPaid [of gateway_declined integer_ToString store_two "Str ''P9''" 240
      "''paypal''" "''P9''" booking_P9 "''P9''" booking_P9]
    processPayment_isPaid [of gateway_ok integer_ToString store_two "Str ''X1''" 120
      "''paypal''" "''X1''" booking_X1 "''P9''" booking_P9]
  by (simp add: gateway_declined_def gateway_ok_def store_two_def booking_P9_def booking_X1_def)









section \<open>Results on cancelling and deleting a booking\<close>

lemma cancel_booking_stored:
  assumes "bookings st b = Some row" and "uid \<noteq> Undefined"
  shows "cancel_booking st (Some b) uid =
           (if userId row \<in> set (ids uid)
            then (st\<lparr>bookings := (bookings st)(b := None)\<rparr>,
                  (200, JObj [(''message'', JStr ''Booking canceled successfully'')]))
            else (st, (404, JObj [(''error'', JStr ''Booking not found'')])))"
  using assms
  by (cases uid) (simp_all add: cancel_booking_def Booking_findOne_owner_def Booking_destroy_def)

lemma cancel_booking_caught:
  "cancel_booking st bid Undefined =
     (st, (500, JObj [(''error'', JStr ''Error canceling booking'')]))"
  by (simp add: cancel_booking_def Booking_findOne_owner_def split: option.splits)

text \<open>
  Claim C4, as amended. For a stored booking, \<open>POST /cancel-booking\<close> with its
  \<open>bookingId\<close> and a \<open>userId\<close> given as a string answers 200 and deletes the row when the
  row's \<open>userId\<close> equals the one supplied, and otherwise answers 404
  \<open>{error: "Booking not found"}\<close> and leaves the store unchanged. With the \<open>userId\<close>
  missing it answers 500 and leaves the store unchanged. With an array of strings as
  \<open>userId\<close> it answers 200 and deletes the row when the row's \<open>userId\<close> is one of the
  elements, and otherwise answers 404 and leaves the store unchanged.
\<close>

theorem cancel_booking_owner_only:
  assumes "bookings st b = Some row"
  shows "cancel_booking st (Some b) (Str u) =
           (if userId row = u
            then (st\<lparr>bookings := (bookings st)(b := None)\<rparr>,
                  (200, JObj [(''message'', JStr ''Booking canceled successfully'')]))
            else (st, (404, JObj [(''error'', JStr ''Booking not found'')]))) \<and>
         cancel_booking st (Some b) Undefined =
           (st, (500, JObj [(''error'', JStr ''Error canceling booking'')])) \<and>
         cancel_booking st (Some b) (StrList us) =
           (if userId row \<in> set us
            then (st\<lparr>bookings := (bookings st)(b := None)\<rparr>,
                  (200, JObj [(''message'', JStr ''Booking canceled successfully'')]))
            else (st, (404, JObj [(''error'', JStr ''Booking not found'')])))"
  using cancel_booking_stored [OF assms, of "Str u"] cancel_booking_stored [OF assms, of "StrList us"]
  by (simp add: cancel_booking_caught)

theorem cancel_booking_owner_only_witness:
  "bookings store_two ''X1'' = Some booking_X1 \<and> userId booking_X1 = ''c@d.com'' \<and>
   snd (cancel_booking store_two (Some ''X1'') (Str ''c@d.com'')) =
     (200, JObj [(''message'', JStr ''Booking canceled successfully'')]) \<and>
   bookings (fst (cancel_booking store_two (Some ''X1'') (Str ''c@d.com''))) ''X1'' = None \<and>
   cancel_booking store_two (Some ''X1'') (Str ''e@f.com'') =
     (store_two, (404, JObj [(''error'', JStr ''Booking not found'')]))"
proof -
  have h: "bookings store_two ''X1'' = Some booking_X1"
    by (simp add: store_two_def)
  show ?thesis
    using h
      cancel_booking_owner_only [OF h, of "''c@d.com''" "[]"]
      cancel_booking_owner_only [OF h, of "''e@f.com''" "[]"]
    by (simp add: booking_X1_def)
qed

text \<open>
  The claim as stated fails in two ways on the stored booking \<open>X1\<close> of \<open>c@d.com\<close>. A call
  without \<open>userId\<close> does not equal the owner and is answered 500, not 404. A call with the
  array \<open>["zz", "c@d.com"]\<close> as \<open>userId\<close>, which is not equal to the stored \<open>userId\<close>, is
  answered 200 and the row is deleted.
\<close>

theorem cancel_booking_owner_only_counterexample:
  "bookings store_two ''X1'' = Some booking_X1 \<and> userId booking_X1 = ''c@d.com'' \<and>
   cancel_booking store_two (Some ''X1'') Undefined =
     (store_two, (500, JObj [(''error'', JStr ''Error canceling booking'')])) \<and>
   snd (cancel_booking store_two (Some ''X1'') (StrList [''zz'', ''c@d.com''])) =
     (200, JObj [(''message'', JStr ''Booking canceled successfully'')]) \<and>
   bookings (fst (cancel_booking store_two (Some ''X1'') (StrList [''zz'', ''c@d.com''])))
     ''X1'' = None"
  using cancel_booking_stored [of store_two "''X1''" booking_X1 "StrList [''zz'', ''c@d.com'']"]
  by (simp add: cancel_booking_caught store_two_def booking_X1_def)

text \<open>
  Claim C10. For a stored booking, \<open>DELETE /delete-booking/:bookingId\<close> answers 200
  \<open>{message: "Booking deleted successfully"}\<close> and removes the row, on the \<open>bookingId\<close>
  alone: the handler takes no caller identity. The same row resists
  \<open>POST /cancel-booking\<close> from any \<open>userId\<close> string other than its own.
\<close>

theorem delete_booking_unguarded:
  assumes "bookings st b = Some row"
  shows "delete_booking st b =
           (st\<lparr>bookings := (bookings st)(b := None)\<rparr>,
            (200, JObj [(''message'', JStr ''Booking deleted successfully'')])) \<and>
         (u \<noteq> userId row \<longrightarrow>
            cancel_booking st (Some b) (Str u) =
              (st, (404, JObj [(''error'', JStr ''Booking not found'')])))"
  using assms cancel_booking_stored [OF assms, of "Str u"]
  by (auto simp add: delete_booking_def Booking_findOne_def Booking_destroy_def)

theorem delete_booking_unguarded_witness:
  "bookings store_two ''P9'' = Some booking_P9 \<and> ''c@d.com'' \<noteq> userId booking_P9 \<and>
   snd (delete_booking store_two ''P9'') =
     (200, JObj [(''message'', JStr ''Booking deleted successfully'')]) \<and>
   bookings (fst (delete_booking store_two ''P9'')) ''P9'' = None \<and>
   cancel_booking store_two (Some ''P9'') (Str ''c@d.com'') =
     (store_two, (404, JObj [(''error'', JStr ''Booking not found'')]))"
proof -
  have h: "bookings store_two ''P9'' = Some booking_P9"
    by (simp add: store_two_def)
  show ?thesis
    using h delete_booking_unguarded [OF h, of "''c@d.com''"]
    by (simp add: booking_P9_def)
qed

section \<open>Results on POST /chat\<close>

lemma Conversation_findOne_Some:
  "Conversation_findOne cs u = Some i \<Longrightarrow> i < length cs \<and> Conversation.userId (cs ! i) = u"
  by (induction cs arbitrary: i) (auto split: if_splits)

lemma Conversation_findOne_append:
  "Conversation_findOne cs u = None \<Longrightarrow>
   Conversation_findOne (cs @ [c]) u =
     (if Conversation.userId c = u then Some (length cs) else None)"
  by (induction cs) (auto split: if_splits)

lemma Conversation_findOne_update:
  "Conversation_findOne (cs[j := (cs ! j)\<lparr>messages := ms\<rparr>]) u = Conversation_findOne cs u"
proof (induction cs arbitrary: j)
  case Nil
  then show ?case by simp
next
  case (Cons c cs)
  then show ?case by (cases j) auto
qed


lemma assistantMessage_of_under_data: "assistantMessage_of (under_data c) = Inr (Some c)"
  by (simp add: assistantMessage_of_def under_data_def)




text \<open>
  Where the content is nested under \<open>data\<close>, one turn appends two turns to the stored
  transcript of the user: the message with role \<open>user\<close>, then the content with role
  \<open>system\<close>.
\<close>

lemma chat_appends_two:
  assumes "uid \<noteq> []"
  shows "\<exists>a. transcript (fst (chat now (\<lambda>u ms. Inr (under_data (reply u ms))) st msg uid)) uid =
           transcript st uid @
             [\<lparr>role = ''user'', content = Some (JStr msg)\<rparr>, \<lparr>role = ''system'', content = a\<rparr>]"
proof (cases "Conversation_findOne (conversations st) uid")
  case None
  then show ?thesis
    using assms
    by (simp add: chat_def transcript_def Let_def Conversation_findOne_append
        Conversation_findOne_update nth_append assistantMessage_of_under_data)
next
  case (Some i)
  then have "i < length (conversations st)"
    using Conversation_findOne_Some by blast
  then show ?thesis
    using assms Some
    by (simp add: chat_def transcript_def Let_def Conversation_findOne_update
        assistantMessage_of_under_data)
qed

text \<open>
  \<open>N\<close> such turns of one user, one after the other, extend the stored transcript by
  \<open>2 * N\<close> turns: the roles alternate between \<open>user\<close> and \<open>system\<close>, and the turns of
  role \<open>user\<close> carry the messages in the order of the calls.
\<close>

lemma chats_extend_transcript:
  assumes "uid \<noteq> []"
  shows "\<exists>ext. transcript (chats (\<lambda>u ms. Inr (under_data (reply u ms))) st uid reqs) uid =
                 transcript st uid @ ext \<and>
               length ext = 2 * length reqs \<and>
               map role ext = concat (map (\<lambda>r. [''user'', ''system'']) reqs) \<and>
               map content (filter (\<lambda>t. role t = ''user'') ext) =
                 map (\<lambda>r. Some (JStr (snd r))) reqs"
proof (induction reqs arbitrary: st)
  case Nil
  then show ?case by simp
next
  case (Cons r reqs)
  obtain now msg where r: "r = (now, msg)"
    by (cases r)
  let ?create = "\<lambda>u ms. Inr (under_data (reply u ms))"
  let ?st1 = "fst (chat now ?create st msg uid)"
  obtain a where one:
    "transcript ?st1 uid =
       transcript st uid @
         [\<lparr>role = ''user'', content = Some (JStr msg)\<rparr>, \<lparr>role = ''system'', content = a\<rparr>]"
    using chat_appends_two [OF assms] by blast
  obtain ext where rest:
    "transcript (chats ?create ?st1 uid reqs) uid = transcript ?st1 uid @ ext"
    "length ext = 2 * length reqs"
    "map role ext = concat (map (\<lambda>r. [''user'', ''system'']) reqs)"
    "map content (filter (\<lambda>t. role t = ''user'') ext) = map (\<lambda>r. Some (JStr (snd r))) reqs"
    using Cons.IH [of ?st1] by blast
  let ?ext =
    "[\<lparr>role = ''user'', content = Some (JStr msg)\<rparr>, \<lparr>role = ''system'', content = a\<rparr>] @ ext"
  have "transcript (chats ?create st uid (r # reqs)) uid = transcript st uid @ ?ext"
    using rest(1) one by (simp add: r)
  moreover have "length ?ext = 2 * length (r # reqs)"
    using rest(2) by simp
  moreover have "map role ?ext = concat (map (\<lambda>r. [''user'', ''system'']) (r # reqs))"
    using rest(3) by simp
  moreover have "map content (filter (\<lambda>t. role t = ''user'') ?ext) =
                   map (\<lambda>r. Some (JStr (snd r))) (r # reqs)"
    using rest(4) by (simp add: r)
  ultimately show ?case by blast
qed


end
